theory Spec2Isabelle
  imports Main "HOL-Library.Word"
begin

section \<open>KuksaClient.hpp: the client's header\<close>

text \<open>
  The header declares the class \<open>KuksaClient\<close>. Its inline members are the typed
  getters \<open>getCurrentValueAs\<close> and \<open>getTargetValueAs\<close>, the setters
  \<open>setCurrentValue\<close> and \<open>setTargetValue\<close>, the helper \<open>setValueInternal\<close> and
  the generic \<open>convertString\<close>; its data members carry default initialisers. These
  are embedded below as they are written. The members that the header only declares
  are parameters of the definitions that call them.
\<close>

subsection \<open>Enumerations\<close>

text \<open>\<^verbatim>\<open>enum FieldType { FT_VALUE = 1, FT_ACTUATOR_TARGET = 2 };\<close>\<close>

datatype FieldType = FT_VALUE | FT_ACTUATOR_TARGET

text \<open>The enumerators' values, as the implicit conversion to \<open>int\<close> gives them.\<close>

fun FieldType_int :: "FieldType \<Rightarrow> int" where
  "FieldType_int FT_VALUE = 1"
| "FieldType_int FT_ACTUATOR_TARGET = 2"

subsection \<open>The input string stream that convertString reads\<close>

text \<open>
  \<open>convertString\<close> builds a \<open>std::istringstream\<close> over the string, extracts with
  \<open>iss >> out\<close> and returns \<open>!iss.fail() && iss.eof()\<close>. The stream is modelled by
  the characters not yet read and its three state bits. A stream over a string never
  sets \<open>badbit\<close> and, with the default exception mask, never throws.
\<close>

record istringstream =
  buf :: string
  failbit :: bool
  eofbit :: bool
  badbit :: bool

definition istringstream_of :: "string \<Rightarrow> istringstream" where
  "istringstream_of str = \<lparr>buf = str, failbit = False, eofbit = False, badbit = False\<rparr>"

definition good :: "istringstream \<Rightarrow> bool" where
  "good s = (\<not> failbit s \<and> \<not> eofbit s \<and> \<not> badbit s)"

definition fail :: "istringstream \<Rightarrow> bool" where
  "fail s = (failbit s \<or> badbit s)"

definition eof :: "istringstream \<Rightarrow> bool" where
  "eof s = eofbit s"

text \<open>
  \<open>isspace\<close> and \<open>isdigit\<close> of the classic "C" locale, the locale of a stream that
  was not imbued: space, and the control characters 9 to 13; the digits 0 to 9.
\<close>

definition isspace :: "char \<Rightarrow> bool" where
  "isspace c = (let n = (of_char c :: nat) in n = 32 \<or> (9 \<le> n \<and> n \<le> 13))"

definition isdigit :: "char \<Rightarrow> bool" where
  "isdigit c = (let n = (of_char c :: nat) in 48 \<le> n \<and> n \<le> 57)"

definition digit_value :: "char \<Rightarrow> int" where
  "digit_value c = int (of_char c) - 48"

text \<open>
  The sentry every formatted input function constructs first
  (\<open>istream::sentry\<close>, with \<open>skipws\<close> set as it is by default): a stream that is
  not good gets \<open>failbit\<close>; otherwise leading white space is skipped, and reaching
  the end while doing so sets \<open>failbit | eofbit\<close>. The extraction goes on only when
  the sentry is true.
\<close>

definition sentry :: "istringstream \<Rightarrow> istringstream \<times> bool" where
  "sentry s =
     (if \<not> good s then (s\<lparr>failbit := True\<rparr>, False)
      else let rest = dropWhile isspace (buf s) in
        if rest = [] then (s\<lparr>buf := [], failbit := True, eofbit := True\<rparr>, False)
        else (s\<lparr>buf := rest\<rparr>, True))"

text \<open>
  A formatted input function \<open>operator>>\<close> for a type \<open>T\<close>: the sentry, then the
  type's own extraction \<open>body\<close>, which runs only when the sentry is true. When the
  sentry is false the target is not written.
\<close>

definition formatted_input ::
  "(istringstream \<Rightarrow> 'a \<Rightarrow> istringstream \<times> 'a) \<Rightarrow> istringstream \<Rightarrow> 'a \<Rightarrow> istringstream \<times> 'a" where
  "formatted_input body s out =
     (case sentry s of
        (s', False) \<Rightarrow> (s', out)
      | (s', True) \<Rightarrow> body s' out)"

subsection \<open>Extraction of an int\<close>

text \<open>
  \<open>iss >> out\<close> with an \<open>int\<close> target is a call of the standard library, whose
  behaviour the C++ standard fixes (C++11 and later; the header needs C++11 for
  \<open>std::atomic\<close> and \<open>std::thread\<close>). It is modelled from the standard's
  description.

  \<open>num_get::get\<close> for \<open>long\<close> with \<open>basefield = dec\<close> (conversion \<open>%ld\<close>) and no
  digit grouping. Stage 2 accumulates an optional sign and then digits, and stops at
  the first character that cannot continue the field or at the end of the input; only
  the latter sets \<open>eofbit\<close>. Stage 3 converts the field and stores: zero, if the
  field cannot be converted (it has no digit), with \<open>failbit\<close>; the most positive
  or the most negative \<open>long\<close>, if the value is too large either way, with
  \<open>failbit\<close>; the converted value otherwise.
\<close>

definition is_sign :: "char \<Rightarrow> bool" where
  "is_sign c = (c = CHR ''+'' \<or> c = CHR ''-'')"

definition decimal :: "string \<Rightarrow> int" where
  "decimal ds = foldl (\<lambda>acc c. acc * 10 + digit_value c) 0 ds"

definition LONG_MIN :: int where "LONG_MIN = - (2 ^ 63)"
definition LONG_MAX :: int where "LONG_MAX = 2 ^ 63 - 1"
definition INT_MIN :: int where "INT_MIN = - (2 ^ 31)"
definition INT_MAX :: int where "INT_MAX = 2 ^ 31 - 1"

text \<open>The result: the input left, \<open>failbit\<close>, \<open>eofbit\<close>, and the value stored.\<close>

definition num_get_long :: "string \<Rightarrow> string \<times> bool \<times> bool \<times> int" where
  "num_get_long inp =
     (let (sign, after_sign) =
            (case inp of
               c # cs \<Rightarrow> if is_sign c then ([c], cs) else ([], inp)
             | [] \<Rightarrow> ([], inp));
          digits = takeWhile isdigit after_sign;
          rest = dropWhile isdigit after_sign;
          at_end = (rest = []);
          magnitude = decimal digits;
          v = (if sign = [CHR ''-''] then - magnitude else magnitude)
      in if digits = [] then (rest, True, at_end, 0)
         else if v < LONG_MIN then (rest, True, at_end, LONG_MIN)
         else if LONG_MAX < v then (rest, True, at_end, LONG_MAX)
         else (rest, False, at_end, v))"

text \<open>
  \<open>istream::operator>>(int& val)\<close>, after the sentry, converts as if by
  \<^verbatim>\<open>
  iostate err = ios_base::goodbit;
  long lval;
  use_facet<numget>(loc).get(*this, 0, *this, err, lval);
  if (lval < numeric_limits<int>::min()) {
    err |= ios_base::failbit;
    val = numeric_limits<int>::min();
  } else if (numeric_limits<int>::max() < lval) {
    err |= ios_base::failbit;
    val = numeric_limits<int>::max();
  } else
    val = static_cast<int>(lval);
  setstate(err);
  \<close>
  The target is written in every branch; when the conversion failed, \<open>lval\<close> is 0
  and so is the target. An \<open>int\<close> is 32 bits wide, a \<open>long\<close> 64.
\<close>

type_synonym cpp_int = "32 word"

definition extract_int_body :: "istringstream \<Rightarrow> cpp_int \<Rightarrow> istringstream \<times> cpp_int" where
  "extract_int_body s out =
     (let (rest, err_fail, err_eof, lval) = num_get_long (buf s);
          (err_fail', val) =
            (if lval < INT_MIN then (True, INT_MIN)
             else if INT_MAX < lval then (True, INT_MAX)
             else (err_fail, lval))
      in (s\<lparr>buf := rest, failbit := (failbit s \<or> err_fail'), eofbit := (eofbit s \<or> err_eof)\<rparr>,
          word_of_int val))"

definition extract_int :: "istringstream \<Rightarrow> cpp_int \<Rightarrow> istringstream \<times> cpp_int" where
  "extract_int = formatted_input extract_int_body"

subsection \<open>convertString and the typed getters\<close>

text \<open>
  \<^verbatim>\<open>
  template <typename T>
  static bool convertString(const std::string &str, T &out) {
    std::istringstream iss(str);
    iss >> out;
    return !iss.fail() && iss.eof();
  }
  \<close>
  The template's type parameter is represented by the extraction operator of the
  type. The result is the flag returned together with the target as it is left.
\<close>

definition convertString ::
  "(istringstream \<Rightarrow> 'a \<Rightarrow> istringstream \<times> 'a) \<Rightarrow> string \<Rightarrow> 'a \<Rightarrow> bool \<times> 'a" where
  "convertString extract str out =
     (let iss = istringstream_of str;
          (iss', out') = extract iss out
      in (\<not> fail iss' \<and> eof iss', out'))"

text \<open>
  \<^verbatim>\<open>
  template <typename T>
  bool getCurrentValueAs(const std::string &entryPath, T &out) {
    std::string strVal = getCurrentValue(entryPath);
    return convertString(strVal, out);
  }
  \<close>
  and the same for \<open>getTargetValueAs\<close> over \<open>getTargetValue\<close>. The string getters
  are declared only, so they are parameters: a getter returns a string or raises
  (\<open>Inl\<close>), and what it raises passes through the typed getter. \<open>conv\<close> is the
  overload of \<open>convertString\<close> chosen for the type: the template above, or one of
  the four overloads that the header declares for \<open>bool\<close>, \<open>uint8_t\<close>,
  \<open>uint16_t\<close> and \<open>uint32_t\<close>.
\<close>

definition getCurrentValueAs ::
  "(string \<Rightarrow> 'a \<Rightarrow> bool \<times> 'a) \<Rightarrow> (string \<Rightarrow> 'e + string) \<Rightarrow> string \<Rightarrow> 'a \<Rightarrow> 'e + bool \<times> 'a" where
  "getCurrentValueAs conv getCurrentValue entryPath out =
     (case getCurrentValue entryPath of
        Inl e \<Rightarrow> Inl e
      | Inr strVal \<Rightarrow> Inr (conv strVal out))"

definition getTargetValueAs ::
  "(string \<Rightarrow> 'a \<Rightarrow> bool \<times> 'a) \<Rightarrow> (string \<Rightarrow> 'e + string) \<Rightarrow> string \<Rightarrow> 'a \<Rightarrow> 'e + bool \<times> 'a" where
  "getTargetValueAs conv getTargetValue entryPath out =
     (case getTargetValue entryPath of
        Inl e \<Rightarrow> Inl e
      | Inr strVal \<Rightarrow> Inr (conv strVal out))"

text \<open>A broker that answers every path with the same string.\<close>

definition answering :: "string \<Rightarrow> string \<Rightarrow> unit + string" where
  "answering v entryPath = Inr v"

subsection \<open>The setters\<close>

text \<open>
  \<^verbatim>\<open>
  template <typename T>
  void setCurrentValue(const std::string &entryPath, const T &newValue) {
    setValueInternal(entryPath, newValue, FT_VALUE);
  }
  template <typename T>
  void setTargetValue(const std::string &entryPath, const T &newValue) {
    setValueInternal(entryPath, newValue, FT_ACTUATOR_TARGET);
  }
  template <typename T>
  void setValueInternal(const std::string &entryPath, const T &newValue, int field) {
    setValueInternalImpl(entryPath, newValue, field);
  }
  \<close>
  \<open>setValueInternalImpl\<close> is declared only: it is the parameter \<open>impl\<close>, and
  whatever it does (its effect \<open>'r\<close>) is what the setters do.
\<close>

definition setValueInternal ::
  "(string \<Rightarrow> 'v \<Rightarrow> int \<Rightarrow> 'r) \<Rightarrow> string \<Rightarrow> 'v \<Rightarrow> int \<Rightarrow> 'r" where
  "setValueInternal impl entryPath newValue field = impl entryPath newValue field"

definition setCurrentValue :: "(string \<Rightarrow> 'v \<Rightarrow> int \<Rightarrow> 'r) \<Rightarrow> string \<Rightarrow> 'v \<Rightarrow> 'r" where
  "setCurrentValue impl entryPath newValue =
     setValueInternal impl entryPath newValue (FieldType_int FT_VALUE)"

definition setTargetValue :: "(string \<Rightarrow> 'v \<Rightarrow> int \<Rightarrow> 'r) \<Rightarrow> string \<Rightarrow> 'v \<Rightarrow> 'r" where
  "setTargetValue impl entryPath newValue =
     setValueInternal impl entryPath newValue (FieldType_int FT_ACTUATOR_TARGET)"

subsection \<open>What a numeric string is\<close>

text \<open>
  The strings an \<open>int\<close> conversion is meant to accept, stated apart from the stream:
  optional leading white space, an optional sign, one or more decimal digits, and
  nothing after them; and the number such a string denotes.
\<close>

definition numeric_text :: "string \<Rightarrow> bool" where
  "numeric_text s =
     (let t = dropWhile isspace s;
          u = (case t of c # cs \<Rightarrow> if is_sign c then cs else t | [] \<Rightarrow> t)
      in u \<noteq> [] \<and> list_all isdigit u)"

definition numeric_value :: "string \<Rightarrow> int" where
  "numeric_value s =
     (case dropWhile isspace s of
        c # cs \<Rightarrow> if is_sign c then (if c = CHR ''-'' then - decimal cs else decimal cs)
                  else decimal (c # cs)
      | [] \<Rightarrow> 0)"

section \<open>The subscription registry and the client's flags\<close>

text \<open>
  The header keeps the client's state in its private data members and gives three of
  them default initialisers:
  \<^verbatim>\<open>
  mutable std::atomic<bool> connected_{false};
  std::atomic<bool> autoReconnect_{true};
  std::atomic<bool> shouldStop_{false};
  \<close>
  The member functions that work on the subscriptions and on the flags
  (\<open>subscribe\<close>, \<open>subscribeAll\<close>, \<open>setAutoReconnect\<close>, the constructors) are
  declared in the header and defined in \<open>KuksaClient.cpp\<close>, which this development
  does not have. They are modelled below from the specification, one call at a time: the
  calls are serialised by the registry's lock, and a worker is represented by its
  entry in the list of workers. A member's trailing underscore is written as
  a prime: \<open>connected'\<close> is \<open>connected_\<close>.
\<close>

text \<open>\<^verbatim>\<open>struct Config { std::string serverURI; bool debug = false;
  std::vector<std::string> signalPaths; };\<close>\<close>

record Config =
  serverURI :: string
  debug :: bool
  signalPaths :: "string list"

text \<open>
  Modelled from the spec: the data of the Subscription Registry, which the header
  holds in \<open>activeSubscriptionPaths_\<close>, \<open>activeSubscriptions_\<close> and
  \<open>subscriptionThreads_\<close> and whose maintenance is in \<open>KuksaClient.cpp\<close>.
  A SubscriptionKey is the pair of an entry path and a field kind; a
  SubscriptionRecord holds the key, the callback and the handle of the worker; a
  worker is spawned with a key and a callback reference, and is cancelled by a
  request that it honours when it next looks: \<open>cancelRequested\<close> records the
  request, and the worker stays among the workers.
\<close>

type_synonym SubscriptionKey = "string \<times> FieldType"

record 'cb SubscriptionRecord =
  key :: SubscriptionKey
  callback :: 'cb
  workerHandle :: "nat option"

record 'cb Worker =
  handle :: nat
  serves :: SubscriptionKey
  notifies :: 'cb
  cancelRequested :: bool

record 'cb KuksaClient =
  config' :: Config
  signalPaths' :: "string list"
  connected' :: bool
  autoReconnect' :: bool
  shouldStop' :: bool
  records :: "'cb SubscriptionRecord list"
  workers :: "'cb Worker list"
  next_handle :: nat

text \<open>
  Modelled from the spec: the constructor \<open>KuksaClient(const Config &)\<close>, defined in
  \<open>KuksaClient.cpp\<close>. The configuration is kept, \<open>signalPaths_\<close> are the
  configured paths, nothing is subscribed; the three flags take the default
  initialisers that the header gives them.
\<close>

definition KuksaClient_new :: "Config \<Rightarrow> 'cb KuksaClient" where
  "KuksaClient_new config =
     \<lparr>config' = config, signalPaths' = signalPaths config,
      connected' = False, autoReconnect' = True, shouldStop' = False,
      records = [], workers = [], next_handle = 0\<rparr>"

text \<open>
  Modelled from the spec: \<open>setAutoReconnect(enabled)\<close>, defined in
  \<open>KuksaClient.cpp\<close>; it sets whether a channel failure triggers reconnection.
\<close>

definition setAutoReconnect :: "bool \<Rightarrow> 'cb KuksaClient \<Rightarrow> 'cb KuksaClient" where
  "setAutoReconnect enabled c = c\<lparr>autoReconnect' := enabled\<rparr>"

text \<open>
  Modelled from the spec: \<open>register(key, callback)\<close> of the Subscription Registry,
  the deduplication that \<open>subscribe\<close> does in \<open>KuksaClient.cpp\<close>. If the key is
  already present it answers "already active" and changes nothing; if absent it
  inserts the record, the worker handle unset, and answers "newly registered".
\<close>

datatype register_result = AlreadyActive | NewlyRegistered

definition registered :: "SubscriptionKey \<Rightarrow> 'cb KuksaClient \<Rightarrow> bool" where
  "registered k c = (k \<in> set (map key (records c)))"

definition register ::
  "SubscriptionKey \<Rightarrow> 'cb \<Rightarrow> 'cb KuksaClient \<Rightarrow> register_result \<times> 'cb KuksaClient" where
  "register k cb c =
     (if registered k c then (AlreadyActive, c)
      else (NewlyRegistered,
            c\<lparr>records := records c @ [\<lparr>key = k, callback = cb, workerHandle = None\<rparr>]\<rparr>))"

text \<open>
  Modelled from the spec: the spawning of a Subscription Worker for a key, which
  \<open>subscribe\<close> does in \<open>KuksaClient.cpp\<close>. The worker gets a fresh handle, the
  key and the callback; the handle is stored in the key's record.
\<close>

definition spawn_worker :: "SubscriptionKey \<Rightarrow> 'cb \<Rightarrow> 'cb KuksaClient \<Rightarrow> 'cb KuksaClient" where
  "spawn_worker k cb c =
     (let h = next_handle c in
      c\<lparr>records := map (\<lambda>r. if key r = k then r\<lparr>workerHandle := Some h\<rparr> else r) (records c),
        workers := workers c @
          [\<lparr>handle = h, serves = k, notifies = cb, cancelRequested = False\<rparr>],
        next_handle := Suc h\<rparr>)"

text \<open>
  Modelled from the spec: \<open>subscribe(entryPath, userCallback, field)\<close>, defined in
  \<open>KuksaClient.cpp\<close>. The registry dedupes and records the entry, then a worker is
  spawned; a subscribe for a key that is already active spawns nothing.
\<close>

definition subscribe :: "string \<Rightarrow> 'cb \<Rightarrow> FieldType \<Rightarrow> 'cb KuksaClient \<Rightarrow> 'cb KuksaClient" where
  "subscribe entryPath userCallback field c =
     (case register (entryPath, field) userCallback c of
        (AlreadyActive, c') \<Rightarrow> c'
      | (NewlyRegistered, c') \<Rightarrow> spawn_worker (entryPath, field) userCallback c')"

text \<open>
  Modelled from the spec: \<open>unregister(key)\<close> of the Subscription Registry, for
  which the header declares no member function. It removes the record if present,
  requests cancellation of that record's worker, and answers whether an entry was
  removed. Cancellation is cooperative: the request is recorded in the worker, which
  is not taken out of the workers by this call.
\<close>

definition unregister :: "SubscriptionKey \<Rightarrow> 'cb KuksaClient \<Rightarrow> bool \<times> 'cb KuksaClient" where
  "unregister k c =
     (case filter (\<lambda>r. key r = k) (records c) of
        [] \<Rightarrow> (False, c)
      | r # _ \<Rightarrow>
          (True,
           c\<lparr>records := filter (\<lambda>r. key r \<noteq> k) (records c),
             workers :=
               map (\<lambda>w. if Some (handle w) = workerHandle r
                        then w\<lparr>cancelRequested := True\<rparr> else w)
                 (workers c)\<rparr>))"

text \<open>
  Modelled from the spec: \<open>subscribeAll(userCallback)\<close>, defined in
  \<open>KuksaClient.cpp\<close>: the configured signal paths are subscribed in their order,
  each with the callback. Neither the header nor the spec says with which field kind;
  it is the parameter \<open>field\<close>.
\<close>

definition subscribe_each ::
  "FieldType \<Rightarrow> 'cb \<Rightarrow> string list \<Rightarrow> 'cb KuksaClient \<Rightarrow> 'cb KuksaClient" where
  "subscribe_each field userCallback paths c =
     foldl (\<lambda>c' path. subscribe path userCallback field c') c paths"

definition subscribeAll :: "FieldType \<Rightarrow> 'cb \<Rightarrow> 'cb KuksaClient \<Rightarrow> 'cb KuksaClient" where
  "subscribeAll field userCallback c = subscribe_each field userCallback (signalPaths' c) c"

text \<open>The calls a caller makes on a client, and a client after a sequence of them.\<close>

datatype 'cb call =
    Subscribe string 'cb FieldType
  | SubscribeAll FieldType 'cb
  | Unregister SubscriptionKey
  | SetAutoReconnect bool

fun do_call :: "'cb KuksaClient \<Rightarrow> 'cb call \<Rightarrow> 'cb KuksaClient" where
  "do_call c (Subscribe entryPath userCallback field) = subscribe entryPath userCallback field c"
| "do_call c (SubscribeAll field userCallback) = subscribeAll field userCallback c"
| "do_call c (Unregister k) = snd (unregister k c)"
| "do_call c (SetAutoReconnect enabled) = setAutoReconnect enabled c"

definition run :: "'cb call list \<Rightarrow> 'cb KuksaClient \<Rightarrow> 'cb KuksaClient" where
  "run calls c = foldl do_call c calls"

text \<open>
  The values that \<open>setAutoReconnect\<close> was called with in a sequence of calls, in
  their order.
\<close>

fun settings :: "'cb call list \<Rightarrow> bool list" where
  "settings [] = []"
| "settings (SetAutoReconnect enabled # calls) = enabled # settings calls"
| "settings (x # calls) = settings calls"

section \<open>Properties of the conversion\<close>

lemmas stream_defs = convertString_def extract_int_def formatted_input_def sentry_def good_def
  fail_def eof_def istringstream_of_def extract_int_body_def num_get_long_def isspace_def
  isdigit_def is_sign_def decimal_def digit_value_def LONG_MIN_def LONG_MAX_def
  INT_MIN_def INT_MAX_def Let_def

lemma convertString_int_42: "convertString extract_int ''42'' out = (True, 42)"
  by (simp add: stream_defs)

lemma convertString_int_abc: "convertString extract_int ''abc'' out = (False, 0)"
  by (simp add: stream_defs)

lemma convertString_int_42x: "convertString extract_int ''42x'' out = (False, 42)"
  by (simp add: stream_defs)

lemma sentry_of_string:
  "sentry (istringstream_of s) =
     (if dropWhile isspace s = []
      then (\<lparr>buf = [], failbit = True, eofbit = True, badbit = False\<rparr>, False)
      else (\<lparr>buf = dropWhile isspace s, failbit = False, eofbit = False, badbit = False\<rparr>, True))"
  by (simp add: sentry_def istringstream_of_def good_def Let_def del: dropWhile_eq_Nil_conv)

text \<open>A string of white space only, the empty one included, stops at the sentry.\<close>

lemma convertString_blank:
  "dropWhile isspace s = [] \<Longrightarrow> convertString (formatted_input body) s out = (False, out)"
  by (simp add: convertString_def formatted_input_def sentry_of_string fail_def eof_def
      del: dropWhile_eq_Nil_conv)

lemma convertString_int_nonblank:
  "dropWhile isspace s = c # cs \<Longrightarrow>
   convertString extract_int s out =
     (case num_get_long (c # cs) of (rest, err_fail, err_eof, lval) \<Rightarrow>
        if lval < INT_MIN then (False, word_of_int INT_MIN)
        else if INT_MAX < lval then (False, word_of_int INT_MAX)
        else (\<not> err_fail \<and> err_eof, word_of_int lval))"
  by (simp add: convertString_def extract_int_def formatted_input_def sentry_of_string
      extract_int_body_def fail_def eof_def Let_def split: prod.splits
      del: dropWhile_eq_Nil_conv)

lemma num_get_long_signed:
  assumes "is_sign c" and "list_all isdigit cs" and "cs \<noteq> []"
  shows "num_get_long (c # cs) =
     (let v = (if c = CHR ''-'' then - decimal cs else decimal cs)
      in if v < LONG_MIN then ([], True, True, LONG_MIN)
         else if LONG_MAX < v then ([], True, True, LONG_MAX)
         else ([], False, True, v))"
proof -
  from assms(2) have tw: "takeWhile isdigit cs = cs" and dw: "dropWhile isdigit cs = []"
    by (simp_all add: list_all_iff)
  show ?thesis
    using assms(1,3) by (simp add: num_get_long_def Let_def tw dw)
qed

lemma num_get_long_unsigned:
  assumes "\<not> is_sign c" and "list_all isdigit (c # cs)"
  shows "num_get_long (c # cs) =
     (let v = decimal (c # cs)
      in if v < LONG_MIN then ([], True, True, LONG_MIN)
         else if LONG_MAX < v then ([], True, True, LONG_MAX)
         else ([], False, True, v))"
proof -
  from assms(2) have tw: "takeWhile isdigit (c # cs) = c # cs"
    and dw: "dropWhile isdigit (c # cs) = []"
    by (simp_all add: list_all_iff)
  show ?thesis
    using assms(1)
    by (simp add: num_get_long_def Let_def tw dw del: takeWhile.simps dropWhile.simps)
qed

lemma num_get_long_rejects:
  "\<not> list_all isdigit (if is_sign c then cs else c # cs) \<or> (is_sign c \<and> cs = []) \<Longrightarrow>
   (case num_get_long (c # cs) of (rest, err_fail, err_eof, lval) \<Rightarrow> err_fail \<or> \<not> err_eof)"
  by (auto simp add: num_get_long_def Let_def list_all_iff split: if_splits)

text \<open>
  The \<open>int\<close> conversion succeeds exactly on the numeric strings whose value is an
  \<open>int\<close>, and then stores that value.
\<close>

lemma convertString_int_iff:
  "convertString extract_int s out = (True, w) \<longleftrightarrow>
     numeric_text s \<and> INT_MIN \<le> numeric_value s \<and> numeric_value s \<le> INT_MAX \<and>
     w = word_of_int (numeric_value s)"
proof (cases "dropWhile isspace s")
  case Nil
  then show ?thesis
    using convertString_blank [of s extract_int_body out]
    by (simp add: extract_int_def numeric_text_def del: dropWhile_eq_Nil_conv)
next
  case (Cons c cs)
  note bounds = LONG_MIN_def LONG_MAX_def INT_MIN_def INT_MAX_def
  show ?thesis
  proof (cases "is_sign c")
    case True
    show ?thesis
    proof (cases "list_all isdigit cs \<and> cs \<noteq> []")
      case ok: True
      then show ?thesis
        using Cons True
        by (auto simp add: convertString_int_nonblank num_get_long_signed numeric_text_def
            numeric_value_def Let_def bounds simp del: dropWhile_eq_Nil_conv)
    next
      case False
      with True have
        "case num_get_long (c # cs) of (rest, err_fail, err_eof, lval) \<Rightarrow> err_fail \<or> \<not> err_eof"
        by (intro num_get_long_rejects) auto
      with Cons True False show ?thesis
        by (auto simp add: convertString_int_nonblank numeric_text_def Let_def
            simp del: dropWhile_eq_Nil_conv split: prod.splits if_splits)
    qed
  next
    case False
    show ?thesis
    proof (cases "list_all isdigit (c # cs)")
      case ok: True
      then show ?thesis
        using Cons False
        by (auto simp add: convertString_int_nonblank num_get_long_unsigned numeric_text_def
            numeric_value_def Let_def bounds simp del: dropWhile_eq_Nil_conv)
    next
      case nd: False
      with False have
        "case num_get_long (c # cs) of (rest, err_fail, err_eof, lval) \<Rightarrow> err_fail \<or> \<not> err_eof"
        by (intro num_get_long_rejects) auto
      with Cons False nd show ?thesis
        by (auto simp add: convertString_int_nonblank numeric_text_def Let_def
            simp del: dropWhile_eq_Nil_conv split: prod.splits if_splits)
    qed
  qed
qed

lemma convertString_int_not_numeric:
  "\<not> numeric_text s \<Longrightarrow> fst (convertString extract_int s out) = False"
  using convertString_int_iff [of s out "snd (convertString extract_int s out)"]
  by (cases "convertString extract_int s out") auto

section \<open>Properties of the auto-reconnect flag\<close>

text \<open>No call but \<open>setAutoReconnect\<close> writes the flag.\<close>

lemma autoReconnect_subscribe: "autoReconnect' (subscribe p cb f c) = autoReconnect' c"
  by (simp add: subscribe_def register_def spawn_worker_def Let_def)

lemma autoReconnect_subscribe_each: "autoReconnect' (subscribe_each f cb ps c) = autoReconnect' c"
  by (induction ps arbitrary: c) (simp_all add: subscribe_each_def autoReconnect_subscribe)

lemma autoReconnect_run:
  "autoReconnect' (run calls c) = last (autoReconnect' c # settings calls)"
proof (induction calls arbitrary: c)
  case Nil
  then show ?case by (simp add: run_def)
next
  case (Cons x calls)
  have "run (x # calls) c = run calls (do_call c x)"
    by (simp add: run_def)
  with Cons.IH [of "do_call c x"] show ?case
    by (cases x) (simp_all add: autoReconnect_subscribe autoReconnect_subscribe_each
        subscribeAll_def unregister_def setAutoReconnect_def split: list.splits)
qed

lemma settings_all_true:
  "SetAutoReconnect False \<notin> set calls \<Longrightarrow> b \<in> set (settings calls) \<Longrightarrow> b"
  by (induction calls rule: settings.induct) auto

section \<open>The claims\<close>

text \<open>
  C2 (as amended). When the string getter returns \<open>"42"\<close>, \<open>getCurrentValueAs<int>\<close>
  returns true and leaves 42 in the out-parameter. When it returns \<open>"abc"\<close> the
  result is false and the out-parameter holds 0: the extraction writes zero when no
  digit could be read. When it returns \<open>"42x"\<close> the result is false, because the
  \<open>x\<close> is left unread and the stream is not at its end; the out-parameter holds 42.
\<close>

theorem getCurrentValueAs_int_examples:
  "(getCurrentValue entryPath = Inr ''42'' \<longrightarrow>
      getCurrentValueAs (convertString extract_int) getCurrentValue entryPath out
        = Inr (True, 42)) \<and>
   (getCurrentValue entryPath = Inr ''abc'' \<longrightarrow>
      getCurrentValueAs (convertString extract_int) getCurrentValue entryPath out
        = Inr (False, 0)) \<and>
   (getCurrentValue entryPath = Inr ''42x'' \<longrightarrow>
      getCurrentValueAs (convertString extract_int) getCurrentValue entryPath out
        = Inr (False, 42))"
  by (simp add: getCurrentValueAs_def convertString_int_42 convertString_int_abc
      convertString_int_42x)

theorem getCurrentValueAs_int_examples_witness:
  "getCurrentValueAs (convertString extract_int) (answering ''42'') ''Vehicle.Speed'' 7
     = Inr (True, 42) \<and>
   getCurrentValueAs (convertString extract_int) (answering ''abc'') ''Vehicle.Speed'' 7
     = Inr (False, 0) \<and>
   getCurrentValueAs (convertString extract_int) (answering ''42x'') ''Vehicle.Speed'' 7
     = Inr (False, 42)"
  using getCurrentValueAs_int_examples [of "answering ''42''" "''Vehicle.Speed''" 7]
    getCurrentValueAs_int_examples [of "answering ''abc''" "''Vehicle.Speed''" 7]
    getCurrentValueAs_int_examples [of "answering ''42x''" "''Vehicle.Speed''" 7]
  by (simp add: answering_def)

text \<open>
  C2 as it is stated fails on \<open>"abc"\<close>: with 7 in the out-parameter before the call,
  the call returns false and the out-parameter is 0, not 7.
\<close>

theorem getCurrentValueAs_int_abc_overwrites:
  "getCurrentValueAs (convertString extract_int) (answering ''abc'') ''Vehicle.Speed'' 7
     = Inr (False, 0) \<and>
   getCurrentValueAs (convertString extract_int) (answering ''abc'') ''Vehicle.Speed'' 7
     \<noteq> Inr (False, 7)"
  by (simp add: getCurrentValueAs_def answering_def convertString_int_abc)

text \<open>
  C3. For every type, whatever overload \<open>conv\<close> of \<open>convertString\<close> it selects, and
  every entry path: when the string getter returns a string, \<open>getCurrentValueAs\<close>
  and \<open>getTargetValueAs\<close> return normally with the flag and the out-parameter that
  \<open>conv\<close> gives on that string. For \<open>int\<close>, a string that is not numeric (no
  digits, or characters left after the digits) makes the flag false; the call still
  returns normally.
\<close>

theorem typed_getters_compose:
  "(getCurrentValue entryPath = Inr strVal \<longrightarrow>
      getCurrentValueAs conv getCurrentValue entryPath out = Inr (conv strVal out)) \<and>
   (getTargetValue entryPath = Inr strVal \<longrightarrow>
      getTargetValueAs conv getTargetValue entryPath out = Inr (conv strVal out)) \<and>
   (getCurrentValue entryPath = Inr strVal \<and> \<not> numeric_text strVal \<longrightarrow>
      (\<exists>out'. getCurrentValueAs (convertString extract_int) getCurrentValue entryPath n
         = Inr (False, out'))) \<and>
   (getTargetValue entryPath = Inr strVal \<and> \<not> numeric_text strVal \<longrightarrow>
      (\<exists>out'. getTargetValueAs (convertString extract_int) getTargetValue entryPath n
         = Inr (False, out')))"
proof -
  have "\<exists>out'. convertString extract_int strVal n = (False, out')"
    if "\<not> numeric_text strVal"
    using convertString_int_not_numeric [OF that, of n]
    by (cases "convertString extract_int strVal n") simp
  then show ?thesis
    by (auto simp add: getCurrentValueAs_def getTargetValueAs_def)
qed

theorem typed_getters_compose_witness:
  "getCurrentValueAs (convertString extract_int) (answering ''12 volts'') ''Vehicle.Speed'' 7
     = Inr (convertString extract_int ''12 volts'' 7) \<and>
   getTargetValueAs (convertString extract_int) (answering ''12 volts'') ''Vehicle.Speed'' 7
     = Inr (convertString extract_int ''12 volts'' 7) \<and>
   (\<exists>out'. getCurrentValueAs (convertString extract_int) (answering ''12 volts'')
       ''Vehicle.Speed'' 7 = Inr (False, out')) \<and>
   (\<exists>out'. getTargetValueAs (convertString extract_int) (answering ''12 volts'')
       ''Vehicle.Speed'' 7 = Inr (False, out'))"
proof -
  have a: "answering ''12 volts'' ''Vehicle.Speed'' = Inr ''12 volts''"
    by (simp add: answering_def)
  have b: "\<not> numeric_text ''12 volts''"
    by (simp add: numeric_text_def isspace_def isdigit_def is_sign_def)
  note inst = typed_getters_compose [where getCurrentValue = "answering ''12 volts''"
      and getTargetValue = "answering ''12 volts''" and entryPath = "''Vehicle.Speed''"
      and strVal = "''12 volts''" and conv = "convertString extract_int"
      and out = "7 :: cpp_int" and n = "7 :: cpp_int"]
  from inst a b show ?thesis
    by blast
qed

text \<open>
  C4. The enumerators are 1 for the current value and 2 for the actuator target.
  For every path and value, \<open>setCurrentValue\<close> hands \<open>setValueInternalImpl\<close> the
  field 1 and \<open>setTargetValue\<close> hands it the field 2, both through
  \<open>setValueInternal\<close>.
\<close>

theorem setters_carry_field_kind:
  "FieldType_int FT_VALUE = 1 \<and> FieldType_int FT_ACTUATOR_TARGET = 2 \<and>
   setCurrentValue impl entryPath newValue = setValueInternal impl entryPath newValue 1 \<and>
   setTargetValue impl entryPath newValue = setValueInternal impl entryPath newValue 2 \<and>
   setCurrentValue impl entryPath newValue = impl entryPath newValue 1 \<and>
   setTargetValue impl entryPath newValue = impl entryPath newValue 2"
  by (simp add: setCurrentValue_def setTargetValue_def setValueInternal_def)

text \<open>
  C9. A new client has the auto-reconnect flag set: the header initialises
  \<open>autoReconnect_\<close> with \<open>true\<close>. After any sequence of calls the flag is the
  value of the last \<open>setAutoReconnect\<close> among them, and true if there is none; so
  it stays true as long as \<open>setAutoReconnect(false)\<close> is not called.
  \<open>setAutoReconnect\<close> sets that flag and leaves the other members as they are.
\<close>

theorem autoReconnect_default_until_set:
  "autoReconnect' (KuksaClient_new config :: 'cb KuksaClient) \<and>
   autoReconnect' (run calls (KuksaClient_new config :: 'cb KuksaClient))
     = last (True # settings calls) \<and>
   (SetAutoReconnect False \<notin> set calls \<longrightarrow>
      autoReconnect' (run calls (KuksaClient_new config :: 'cb KuksaClient))) \<and>
   setAutoReconnect enabled (c :: 'cb KuksaClient) = c\<lparr>autoReconnect' := enabled\<rparr> \<and>
   autoReconnect' (setAutoReconnect enabled c) = enabled \<and>
   connected' (setAutoReconnect enabled c) = connected' c \<and>
   shouldStop' (setAutoReconnect enabled c) = shouldStop' c \<and>
   records (setAutoReconnect enabled c) = records c \<and>
   workers (setAutoReconnect enabled c) = workers c"
proof -
  have a: "autoReconnect' (run calls (KuksaClient_new config :: 'cb KuksaClient))
      = last (True # settings calls)"
    by (simp add: autoReconnect_run KuksaClient_new_def)
  have b: "last (True # settings calls)" if "SetAutoReconnect False \<notin> set calls"
  proof -
    show ?thesis
    proof (cases "settings calls = []")
      case True
      then show ?thesis by simp
    next
      case False
      then have "last (settings calls) \<in> set (settings calls)"
        by (rule last_in_set)
      with that have "last (settings calls)"
        by (rule settings_all_true)
      with False show ?thesis by simp
    qed
  qed
  from a b show ?thesis
    by (simp add: setAutoReconnect_def KuksaClient_new_def)
qed

text \<open>
  C9 at a sequence of calls without \<open>setAutoReconnect(false)\<close>, and at one with it.
\<close>

theorem autoReconnect_default_until_set_witness:
  "autoReconnect' (run [Subscribe ''Vehicle.Speed'' () FT_VALUE, SetAutoReconnect True]
      (KuksaClient_new \<lparr>serverURI = ''127.0.0.1:55555'', debug = False, signalPaths = []\<rparr>)) \<and>
   \<not> autoReconnect' (run [SetAutoReconnect False]
      (KuksaClient_new \<lparr>serverURI = ''127.0.0.1:55555'', debug = False, signalPaths = []\<rparr>
        :: unit KuksaClient))"
  using autoReconnect_default_until_set [of "\<lparr>serverURI = ''127.0.0.1:55555'', debug = False, signalPaths = []\<rparr>"
      "[Subscribe ''Vehicle.Speed'' () FT_VALUE, SetAutoReconnect True]"]
    autoReconnect_default_until_set [of "\<lparr>serverURI = ''127.0.0.1:55555'', debug = False, signalPaths = []\<rparr>"
      "[SetAutoReconnect False] :: unit call list"]
  by simp

text \<open>
  C10. For every type that the generic \<open>convertString\<close> reads with a formatted
  input operator (whatever the type's own extraction \<open>body\<close> does after the sentry),
  the empty string fails: when the string getter returns the empty string,
  \<open>getCurrentValueAs\<close> and \<open>getTargetValueAs\<close> return false, and the out-parameter
  is left as it was. \<open>int\<close> is such a type.
\<close>

theorem empty_string_fails:
  "(getCurrentValue entryPath = Inr '''' \<longrightarrow>
      getCurrentValueAs (convertString (formatted_input body)) getCurrentValue entryPath out
        = Inr (False, out)) \<and>
   (getTargetValue entryPath = Inr '''' \<longrightarrow>
      getTargetValueAs (convertString (formatted_input body)) getTargetValue entryPath out
        = Inr (False, out)) \<and>
   (getCurrentValue entryPath = Inr '''' \<longrightarrow>
      getCurrentValueAs (convertString extract_int) getCurrentValue entryPath n
        = Inr (False, n)) \<and>
   (getTargetValue entryPath = Inr '''' \<longrightarrow>
      getTargetValueAs (convertString extract_int) getTargetValue entryPath n
        = Inr (False, n))"
  by (simp add: getCurrentValueAs_def getTargetValueAs_def convertString_blank extract_int_def)

theorem empty_string_fails_witness:
  "getCurrentValueAs (convertString (formatted_input extract_int_body)) (answering '''')
     ''Vehicle.Speed'' 7 = Inr (False, 7) \<and>
   getTargetValueAs (convertString (formatted_input extract_int_body)) (answering '''')
     ''Vehicle.Speed'' 7 = Inr (False, 7) \<and>
   getCurrentValueAs (convertString extract_int) (answering '''') ''Vehicle.Speed'' 7
     = Inr (False, 7) \<and>
   getTargetValueAs (convertString extract_int) (answering '''') ''Vehicle.Speed'' 7
     = Inr (False, 7)"
  using empty_string_fails [of "answering ''''" "''Vehicle.Speed''" extract_int_body 7
      "answering ''''" 7]
  by (simp add: answering_def)

end
